theory Spec2Isabelle
  imports Complex_Main "HOL-Library.AList"
begin

section \<open>The user-registration and login service (AuthService)\<close>

text \<open>
  A shallow embedding of the class \<open>AuthService\<close>. The service is written against
  three injected or imported collaborators whose code is not part of the repository:
  the mongoose model \<open>userModel\<close>, the \<open>JwtService\<close> and the \<open>bcryptjs\<close> module.
  They are the fields of the record \<open>deps\<close>; every function of the service takes that
  record as its first argument, as the class takes them through its constructor.
  Exceptions are values: a function that can throw returns \<open>exn + 'a\<close>.
\<close>

subsection \<open>JavaScript values, objects and thrown errors\<close>

text \<open>
  A plain object (a DTO, the result of \<open>toJSON()\<close>) is an association list from
  property names to values; a property that is missing reads as \<open>undefined\<close>, which
  is \<open>None\<close> here. Strings are lists of characters and \<open>length\<close> is the
  string's \<open>.length\<close>.
\<close>

datatype jsval = JStr string | JBool bool | JList "string list"

type_synonym jsobj = "(string \<times> jsval) list"

text \<open>\<open>obj.k\<close>\<close>

definition property :: "jsobj \<Rightarrow> string \<Rightarrow> jsval option" where
  "property obj k = map_of obj k"

text \<open>\<open>const { k: _, ...rest } = obj\<close>: the object without its property \<open>k\<close>.\<close>

definition rest :: "string \<Rightarrow> jsobj \<Rightarrow> jsobj" where
  "rest k obj = AList.delete k obj"

text \<open>\<open>{ ...a, ...b }\<close>: the properties of \<open>a\<close>, overwritten and extended by those of \<open>b\<close>.\<close>

definition spread :: "jsobj \<Rightarrow> jsobj \<Rightarrow> jsobj" where
  "spread a b = AList.merge a b"

fun join_comma :: "string list \<Rightarrow> string" where
  "join_comma [] = []"
| "join_comma [x] = x"
| "join_comma (x # y # ys) = x @ '','' @ join_comma (y # ys)"

text \<open>The string a template literal \<open>`${v}`\<close> puts in place of \<open>v\<close>.\<close>

fun template :: "jsval option \<Rightarrow> string" where
  "template None = ''undefined''"
| "template (Some (JStr s)) = s"
| "template (Some (JBool b)) = (if b then ''true'' else ''false'')"
| "template (Some (JList xs)) = join_comma xs"

text \<open>
  What the code throws. \<open>Error c\<close> is an error that is not an \<open>HttpException\<close>: it has
  no \<open>response\<close>, and \<open>c\<close> is its \<open>code\<close> property when it has one (the store's
  duplicate-key error carries the code 11000). \<open>NotFoundException\<close> is imported by the
  file and thrown nowhere in it.
\<close>

datatype exn =
    BadRequestException string
  | InternalServerErrorException string
  | UnauthorizedException string
  | NotFoundException string
  | TypeError string
  | Error "int option"

text \<open>\<open>error.code\<close>\<close>

fun code :: "exn \<Rightarrow> int option" where
  "code (Error c) = c"
| "code _ = None"

text \<open>\<open>error.response\<close>, as the pair of its \<open>statusCode\<close> and its \<open>message\<close>.\<close>

fun response :: "exn \<Rightarrow> (int \<times> string) option" where
  "response (BadRequestException m) = Some (400, m)"
| "response (InternalServerErrorException m) = Some (500, m)"
| "response (UnauthorizedException m) = Some (401, m)"
| "response (NotFoundException m) = Some (404, m)"
| "response (TypeError m) = None"
| "response (Error c) = None"

subsection \<open>The collaborators\<close>

text \<open>
  \<open>JwtPayload\<close> is the object \<open>{ id }\<close> that is signed. The DTOs of \<open>create\<close>
  and \<open>register\<close> are objects, since the code takes them apart and spreads them;
  the DTO of \<open>login\<close> is only read, field by field, and is a record of its two
  strings.
\<close>

datatype JwtPayload = JwtPayload "jsval option"

record LoginDto =
  email :: string
  password :: string

record LoginResponse =
  user :: jsobj
  token :: string

text \<open>
  \<open>'db\<close> is the state of the collection behind \<open>userModel\<close>.
  \<^item> \<open>save db o\<close> is \<open>new this.userModel(o)\<close>, \<open>await newUser.save()\<close> and
    \<open>newUser.toJSON()\<close>: the error thrown, or the saved document as an object, and the
    collection afterwards;
  \<^item> \<open>findOne db q\<close>, \<open>find_docs db q\<close> and \<open>findById db i\<close> are the queries
    \<open>findOne(q)\<close>, \<open>find(q)\<close> and \<open>findById(i)\<close>, a document read as its
    \<open>toJSON()\<close> and \<open>null\<close> as \<open>None\<close>;
  \<^item> \<open>sign\<close> is \<open>jwtService.sign\<close>;
  \<^item> \<open>hashSync\<close> and \<open>compareSync\<close> are the functions of \<open>bcryptjs\<close> on
    strings (on an argument that is not a string both throw an error, which the
    service functions below write out).
\<close>

record 'db deps =
  save :: "'db \<Rightarrow> jsobj \<Rightarrow> (exn + jsobj) \<times> 'db"
  findOne :: "'db \<Rightarrow> jsobj \<Rightarrow> exn + jsobj option"
  find_docs :: "'db \<Rightarrow> jsobj \<Rightarrow> exn + jsobj list"
  findById :: "'db \<Rightarrow> string \<Rightarrow> exn + jsobj option"
  sign :: "JwtPayload \<Rightarrow> exn + string"
  hashSync :: "string \<Rightarrow> nat \<Rightarrow> string"
  compareSync :: "string \<Rightarrow> string \<Rightarrow> bool"

subsection \<open>create\<close>

text \<open>The object given to \<open>new this.userModel\<close>: \<open>{ password: hash, ...userData }\<close>.\<close>

definition newUser :: "'db deps \<Rightarrow> string \<Rightarrow> jsobj \<Rightarrow> jsobj" where
  "newUser d pw createUserDto =
     spread [(''password'', JStr (hashSync d pw 10))] (rest ''password'' createUserDto)"

text \<open>The \<open>catch\<close> block of \<open>create\<close>.\<close>

definition create_catch :: "jsobj \<Rightarrow> exn \<Rightarrow> exn" where
  "create_catch createUserDto error =
     (if code error = Some 11000
      then BadRequestException (template (property createUserDto ''email'') @ '' already exist!'')
      else InternalServerErrorException ''Something went wrong with the server!'')"

text \<open>
  \<open>create\<close> returns what the caller gets and the collection afterwards. A password
  that is not a string makes \<open>hashSync\<close> throw inside the \<open>try\<close> block.
\<close>

definition create :: "'db deps \<Rightarrow> 'db \<Rightarrow> jsobj \<Rightarrow> (exn + jsobj) \<times> 'db" where
  "create d db createUserDto =
     (case property createUserDto ''password'' of
        Some (JStr pw) \<Rightarrow>
          (case save d db (newUser d pw createUserDto) of
             (Inr json, db') \<Rightarrow> (Inr (rest ''password'' json), db')
           | (Inl error, db') \<Rightarrow> (Inl (create_catch createUserDto error), db'))
      | _ \<Rightarrow> (Inl (create_catch createUserDto (Error None)), db))"

subsection \<open>createRandomPassword and register\<close>

text \<open>\<open>s.charAt(i)\<close>: the empty string when \<open>i\<close> is out of range.\<close>

definition charAt :: "string \<Rightarrow> int \<Rightarrow> string" where
  "charAt s i = (if 0 \<le> i \<and> i < int (length s) then [s ! nat i] else [])"

definition banco :: string where
  "banco = ''ABCDEFGHIJKLMNOPQRSTUVWXYZabcdefghijklmnopqrstuvwxyz0123456789''"

text \<open>
  Numbers are IEEE doubles. A double that is not negative is written as a pair
  \<open>(m, q)\<close> of natural numbers and stands for \<open>m / 2 ^ q\<close>; it is a double when
  \<open>m < 2 ^ 53\<close> and \<open>q \<le> 1074\<close>. \<open>Math.random()\<close> gives a double that is at
  least 0 and less than 1.
\<close>

type_synonym double = "nat \<times> nat"


text \<open>The number of binary digits of \<open>n\<close>.\<close>

fun bits :: "nat \<Rightarrow> nat" where
  "bits n = (if n = 0 then 0 else Suc (bits (n div 2)))"

declare bits.simps [simp del]

text \<open>\<open>n / 2 ^ s\<close> rounded to the nearest natural number, a tie to the even one.\<close>

definition round_half_even :: "nat \<Rightarrow> nat \<Rightarrow> nat" where
  "round_half_even n s =
     (if s = 0 then n
      else if n mod 2 ^ s < 2 ^ (s - 1) then n div 2 ^ s
      else if 2 ^ (s - 1) < n mod 2 ^ s then n div 2 ^ s + 1
      else if even (n div 2 ^ s) then n div 2 ^ s
      else n div 2 ^ s + 1)"

text \<open>
  \<open>r * l\<close> for a double \<open>r\<close> and the length \<open>l\<close> of a string: the exact product
  \<open>m * l / 2 ^ q\<close> rounded to 53 binary digits, to the nearest double and a tie to
  the even one. The product is exact when \<open>m * l\<close> has no more than 53 digits.
\<close>

definition times_length :: "double \<Rightarrow> nat \<Rightarrow> double" where
  "times_length r l =
     (case r of (m, q) \<Rightarrow>
        (round_half_even (m * l) (bits (m * l) - 53) * 2 ^ (bits (m * l) - 53), q))"

text \<open>\<open>Math.floor\<close> of a double that is not negative.\<close>

definition Math_floor :: "double \<Rightarrow> int" where
  "Math_floor r = (case r of (m, q) \<Rightarrow> int (m div 2 ^ q))"

text \<open>
  The \<open>for\<close> loop of \<open>createRandomPassword\<close>, from the counter \<open>x\<close> and the
  string built so far. \<open>random k\<close> is the value of the call of \<open>Math.random()\<close>
  made in round \<open>k\<close>.
\<close>

function createRandomPassword_loop :: "(nat \<Rightarrow> double) \<Rightarrow> nat \<Rightarrow> nat \<Rightarrow> string \<Rightarrow> string" where
  "createRandomPassword_loop random longitud x pass =
     (if x < longitud
      then createRandomPassword_loop random longitud (x + 1)
             (pass @ charAt banco (Math_floor (times_length (random x) (length banco))))
      else pass)"
  by pat_completeness auto
termination
  by (relation "measure (\<lambda>(random, longitud, x, pass). longitud - x)") auto

declare createRandomPassword_loop.simps [simp del]

definition createRandomPassword :: "(nat \<Rightarrow> double) \<Rightarrow> nat \<Rightarrow> string" where
  "createRandomPassword random longitud = createRandomPassword_loop random longitud 0 []"

definition getJwtToken :: "'db deps \<Rightarrow> JwtPayload \<Rightarrow> exn + string" where
  "getJwtToken d payload = sign d payload"

text \<open>
  The \<open>catch\<close> block of \<open>register\<close>. Reading \<open>statusCode\<close> of a \<open>response\<close>
  that is undefined throws a \<open>TypeError\<close> out of the block.
\<close>

definition register_catch :: "exn \<Rightarrow> exn" where
  "register_catch error =
     (case response error of
        None \<Rightarrow> TypeError ''Cannot read properties of undefined''
      | Some (statusCode, message) \<Rightarrow>
          if statusCode = 400 then BadRequestException message
          else InternalServerErrorException ''Internal server error'')"

text \<open>What \<open>register\<close> changes: the collection, and the lines written by \<open>console.log\<close>.\<close>

record 'db state =
  store :: 'db
  console :: "string list"

definition register ::
  "'db deps \<Rightarrow> (nat \<Rightarrow> double) \<Rightarrow> 'db state \<Rightarrow> jsobj \<Rightarrow> (exn + LoginResponse) \<times> 'db state" where
  "register d random s registerUserDto =
     (let pw = createRandomPassword random 8;
          s1 = s\<lparr>console := console s @ [pw]\<rparr>
      in case create d (store s1) (spread [(''password'', JStr pw)] registerUserDto) of
           (Inr u, db') \<Rightarrow>
             (case getJwtToken d (JwtPayload (property u ''_id'')) of
                Inr t \<Rightarrow> (Inr \<lparr>user = u, token = t\<rparr>, s1\<lparr>store := db'\<rparr>)
              | Inl error \<Rightarrow> (Inl (register_catch error), s1\<lparr>store := db'\<rparr>))
         | (Inl error, db') \<Rightarrow> (Inl (register_catch error), s1\<lparr>store := db'\<rparr>))"

subsection \<open>login and the lookups\<close>

text \<open>
  An object literal \<open>{ k: v }\<close>; a property whose value is undefined is left out,
  since it reads as undefined either way.
\<close>

definition obj1 :: "string \<Rightarrow> jsval option \<Rightarrow> jsobj" where
  "obj1 k v = (case v of None \<Rightarrow> [] | Some x \<Rightarrow> [(k, x)])"

text \<open>
  \<open>login\<close>. The \<open>id\<close> of a document is its \<open>_id\<close>. A stored \<open>password\<close>
  that is not a string makes \<open>compareSync\<close> throw.
\<close>

definition login :: "'db deps \<Rightarrow> 'db \<Rightarrow> LoginDto \<Rightarrow> exn + LoginResponse" where
  "login d db loginDto =
     (case findOne d db [(''email'', JStr (email loginDto))] of
        Inl error \<Rightarrow> Inl error
      | Inr None \<Rightarrow> Inl (UnauthorizedException ''Not valid credentials'')
      | Inr (Some u) \<Rightarrow>
          (case property u ''password'' of
             Some (JStr h) \<Rightarrow>
               if \<not> compareSync d (password loginDto) h
               then Inl (UnauthorizedException ''Not valid credentials'')
               else (case getJwtToken d (JwtPayload (property u ''_id'')) of
                       Inl error \<Rightarrow> Inl error
                     | Inr t \<Rightarrow> Inr \<lparr>user = rest ''password'' u, token = t\<rparr>)
           | _ \<Rightarrow> Inl (Error None)))"

definition findAll :: "'db deps \<Rightarrow> 'db \<Rightarrow> exn + jsobj list" where
  "findAll d db =
     (case find_docs d db [] of
        Inl error \<Rightarrow> Inl error
      | Inr results \<Rightarrow> Inr (map (\<lambda>res. rest ''password'' res) results))"

definition searchEmail :: "'db deps \<Rightarrow> 'db \<Rightarrow> string \<Rightarrow> exn + jsobj list" where
  "searchEmail d db email_arg =
     (if email_arg = [] then Inr []
      else case find_docs d db [(''email'', JStr email_arg)] of
             Inl error \<Rightarrow> Inl error
           | Inr results \<Rightarrow>
               Inr (map (\<lambda>element. obj1 ''email'' (property element ''email'')) results))"

text \<open>\<open>user.toJSON()\<close> on the \<open>null\<close> that \<open>findById\<close> gives throws a \<open>TypeError\<close>.\<close>

definition findUserById :: "'db deps \<Rightarrow> 'db \<Rightarrow> string \<Rightarrow> exn + jsobj" where
  "findUserById d db i =
     (case findById d db i of
        Inl error \<Rightarrow> Inl error
      | Inr None \<Rightarrow> Inl (TypeError ''Cannot read properties of null'')
      | Inr (Some u) \<Rightarrow> Inr (rest ''password'' u))"

subsection \<open>The constraints declared on RegisterUserDto\<close>

definition IsString :: "jsval option \<Rightarrow> bool" where
  "IsString v = (case v of Some (JStr s) \<Rightarrow> True | _ \<Rightarrow> False)"

definition MinLength :: "nat \<Rightarrow> jsval option \<Rightarrow> bool" where
  "MinLength n v = (case v of Some (JStr s) \<Rightarrow> n \<le> length s | _ \<Rightarrow> False)"

definition RegisterUserDto_valid :: "jsobj \<Rightarrow> bool" where
  "RegisterUserDto_valid dto =
     (IsString (property dto ''name'') \<and>
      IsString (property dto ''email'') \<and> MinLength 3 (property dto ''email'') \<and>
      MinLength 6 (property dto ''password''))"

subsection \<open>Collaborators to run the service on\<close>

text \<open>
  A collection held in memory, to evaluate the service on concrete inputs: a list of
  documents with a unique index on \<open>email\<close>, whose queries match a property by
  equality. Saving a second document with an email already present throws the
  duplicate-key error, with the code 11000. The hash and the token are stand-ins of
  the same shape as the real ones: a function of the secret, checked by recomputing it.
\<close>

definition matches :: "jsobj \<Rightarrow> jsobj \<Rightarrow> bool" where
  "matches q doc = list_all (\<lambda>(k, v). property doc k = Some v) q"

definition mem_save :: "jsobj list \<Rightarrow> jsobj \<Rightarrow> (exn + jsobj) \<times> jsobj list" where
  "mem_save db doc =
     (if filter (\<lambda>x. property x ''email'' = property doc ''email'') db \<noteq> []
      then (Inl (Error (Some 11000)), db)
      else (Inr ((''_id'', JStr (''id'' @ replicate (length db) CHR ''+'')) # doc),
            db @ [(''_id'', JStr (''id'' @ replicate (length db) CHR ''+'')) # doc]))"

definition mem_sign :: "JwtPayload \<Rightarrow> exn + string" where
  "mem_sign p = (case p of JwtPayload v \<Rightarrow> Inr (''jwt.'' @ template v))"

definition mem_hashSync :: "string \<Rightarrow> nat \<Rightarrow> string" where
  "mem_hashSync s rounds = ''#'' @ rev s"

definition mem_compareSync :: "string \<Rightarrow> string \<Rightarrow> bool" where
  "mem_compareSync s h = (h = ''#'' @ rev s)"

definition mem_deps :: "(jsobj list) deps" where
  "mem_deps =
     \<lparr>save = mem_save,
      findOne = (\<lambda>db q. Inr (List.find (matches q) db)),
      find_docs = (\<lambda>db q. Inr (filter (matches q) db)),
      findById = (\<lambda>db i. Inr (List.find (\<lambda>x. property x ''_id'' = Some (JStr i)) db)),
      sign = mem_sign,
      hashSync = mem_hashSync,
      compareSync = mem_compareSync\<rparr>"

subsection \<open>Case folding, as the specification words it\<close>

text \<open>
  The service has no function that folds case. This one follows the words of the
  specification (an identity key is case-folded): each upper-case letter is replaced
  by its lower-case letter. It is used only to state what the service does not do.
\<close>

definition toLowerCase_char :: "char \<Rightarrow> char" where
  "toLowerCase_char c =
     (case map_of (zip ''ABCDEFGHIJKLMNOPQRSTUVWXYZ'' ''abcdefghijklmnopqrstuvwxyz'') c of
        Some l \<Rightarrow> l
      | None \<Rightarrow> c)"

definition case_fold :: "string \<Rightarrow> string" where
  "case_fold s = map toLowerCase_char s"

subsection \<open>Concrete inputs\<close>

definition ana :: jsobj where
  "ana = [(''name'', JStr ''Ana''), (''email'', JStr ''Ana@x.io''), (''password'', JStr ''secret1'')]"

text \<open>The document of \<open>ana\<close> in the collection, and her view without the password.\<close>

definition ana_doc :: jsobj where
  "ana_doc = [(''_id'', JStr ''id''), (''password'', JStr ''#1terces''),
              (''email'', JStr ''Ana@x.io''), (''name'', JStr ''Ana'')]"

definition ana_view :: jsobj where
  "ana_view = [(''_id'', JStr ''id''), (''email'', JStr ''Ana@x.io''), (''name'', JStr ''Ana'')]"

text \<open>A registration that brings no password of its own.\<close>

definition bob :: jsobj where
  "bob = [(''name'', JStr ''Bob''), (''email'', JStr ''bob@x.io'')]"

text \<open>
  Sequences of draws of \<open>Math.random()\<close>: all 0; 0 and 1/2 in turn; and two
  draws whose product with 62 is rounded, the double \<open>1162219258676257 / 2 ^ 52\<close>
  (the product rounds up to 16) and the greatest double below 1 (the product rounds
  to the double below 62).
\<close>

definition zeros :: "nat \<Rightarrow> double" where
  "zeros k = (0, 0)"



text \<open>
  A \<open>save\<close> that fails for every document but one whose \<open>password\<close> is the
  hash of the secret of \<open>ana\<close>.
\<close>

definition picky_save :: "jsobj list \<Rightarrow> jsobj \<Rightarrow> (exn + jsobj) \<times> jsobj list" where
  "picky_save db doc =
     (if property doc ''password'' = Some (JStr ''#1terces'') then mem_save db doc
      else (Inl (Error None), db))"

text \<open>A store whose \<open>save\<close> fails with an error that has no code (a lost connection).\<close>

definition down_deps :: "(jsobj list) deps" where
  "down_deps = mem_deps\<lparr>save := (\<lambda>db doc. (Inl (Error None), db))\<rparr>"

section \<open>Properties\<close>

subsection \<open>Objects\<close>

lemmas run =
  create_def create_catch_def newUser_def property_def rest_def spread_def
  mem_deps_def mem_save_def mem_sign_def mem_hashSync_def mem_compareSync_def matches_def
  login_def findAll_def searchEmail_def findUserById_def getJwtToken_def obj1_def
  register_def register_catch_def ana_def ana_doc_def ana_view_def bob_def down_deps_def
  picky_save_def

lemma property_rest_same: "property (rest k obj) k = None"
  by (simp add: property_def rest_def AList.delete_conv')

lemma property_rest_other: "k' \<noteq> k \<Longrightarrow> property (rest k obj) k' = property obj k'"
  by (simp add: property_def rest_def)

lemma property_spread:
  "property (spread a b) k = (case property b k of None \<Rightarrow> property a k | Some v \<Rightarrow> Some v)"
  by (simp add: property_def spread_def AList.merge_conv' map_add_def split: option.split)

lemma property_obj1_other: "k' \<noteq> k \<Longrightarrow> property (obj1 k v) k' = None"
  by (cases v) (simp_all add: property_def obj1_def)

lemma newUser_password:
  "property (newUser d pw dto) ''password'' = Some (JStr (hashSync d pw 10))"
  by (simp add: newUser_def property_spread property_rest_same) (simp add: property_def)

lemma newUser_other:
  assumes "k \<noteq> ''password''"
  shows "property (newUser d pw dto) k = property dto k"
proof -
  have "property [(''password'', JStr (hashSync d pw 10))] k = None"
    using assms by (simp add: property_def)
  then show ?thesis
    using assms
    by (simp add: newUser_def property_spread property_rest_other split: option.split)
qed

lemma create_saved:
  assumes "property dto ''password'' = Some (JStr pw)"
    and "save d db (newUser d pw dto) = (Inr json, db')"
  shows "create d db dto = (Inr (rest ''password'' json), db')"
  using assms by (simp add: create_def)

subsection \<open>No view carries the password\<close>

lemma create_Inr:
  assumes "create d db dto = (Inr u, db')"
  shows "property u ''password'' = None"
  using assms
  by (auto simp: create_def property_rest_same
           split: option.splits jsval.splits prod.splits sum.splits)

lemma login_Inr:
  assumes "login d db ld = Inr r"
  shows "property (user r) ''password'' = None"
  using assms
  by (auto simp: login_def property_rest_same
           split: option.splits jsval.splits sum.splits if_splits)

lemma findAll_Inr:
  assumes "findAll d db = Inr us"
  shows "list_all (\<lambda>u. property u ''password'' = None) us"
  using assms
  by (auto simp: findAll_def property_rest_same list_all_iff split: sum.splits)

lemma findUserById_Inr:
  assumes "findUserById d db i = Inr u"
  shows "property u ''password'' = None"
  using assms
  by (auto simp: findUserById_def property_rest_same split: option.splits sum.splits)

lemma searchEmail_Inr:
  assumes "searchEmail d db e = Inr us"
  shows "list_all (\<lambda>u. property u ''password'' = None) us"
  using assms
  by (auto simp: searchEmail_def property_obj1_other list_all_iff split: sum.splits if_splits)

lemma register_Inr:
  assumes "register d random s dto = (Inr r, s')"
  shows "property (user r) ''password'' = None
         \<and> sign d (JwtPayload (property (user r) ''_id'')) = Inr (token r)"
  using assms
  by (auto simp: register_def Let_def getJwtToken_def dest: create_Inr
           split: prod.splits sum.splits)

text \<open>
  Claim C1. Whatever the store, the hasher and the signer do, and whatever the input,
  a value that \<open>create\<close>, \<open>login\<close>, \<open>findAll\<close>, \<open>findUserById\<close> or \<open>searchEmail\<close>
  returns (and one that \<open>register\<close> returns) has no \<open>password\<close> property: not in
  the account object, not in any object of the list, not in the \<open>user\<close> of a login
  response. Nothing in the functions looks at who calls.
\<close>

theorem views_never_carry_password:
  "(\<forall>u db'. create d db dto = (Inr u, db') \<longrightarrow> property u ''password'' = None) \<and>
   (\<forall>r. login d db ld = Inr r \<longrightarrow> property (user r) ''password'' = None) \<and>
   (\<forall>us. findAll d db = Inr us \<longrightarrow> list_all (\<lambda>u. property u ''password'' = None) us) \<and>
   (\<forall>u. findUserById d db i = Inr u \<longrightarrow> property u ''password'' = None) \<and>
   (\<forall>us. searchEmail d db e = Inr us \<longrightarrow> list_all (\<lambda>u. property u ''password'' = None) us) \<and>
   (\<forall>r s'. register d random s rdto = (Inr r, s') \<longrightarrow> property (user r) ''password'' = None)"
proof (intro conjI allI impI)
  fix u db' assume "create d db dto = (Inr u, db')"
  then show "property u ''password'' = None" by (rule create_Inr)
next
  fix r assume "login d db ld = Inr r"
  then show "property (user r) ''password'' = None" by (rule login_Inr)
next
  fix us assume "findAll d db = Inr us"
  then show "list_all (\<lambda>u. property u ''password'' = None) us" by (rule findAll_Inr)
next
  fix u assume "findUserById d db i = Inr u"
  then show "property u ''password'' = None" by (rule findUserById_Inr)
next
  fix us assume "searchEmail d db e = Inr us"
  then show "list_all (\<lambda>u. property u ''password'' = None) us" by (rule searchEmail_Inr)
next
  fix r s' assume "register d random s rdto = (Inr r, s')"
  then show "property (user r) ''password'' = None" by (simp add: register_Inr)
qed

theorem views_never_carry_password_witness:
  "create mem_deps [] ana = (Inr ana_view, [ana_doc]) \<and>
   property ana_view ''password'' = None \<and>
   login mem_deps [ana_doc] \<lparr>email = ''Ana@x.io'', password = ''secret1''\<rparr> =
     Inr \<lparr>user = ana_view, token = ''jwt.id''\<rparr> \<and>
   findAll mem_deps [ana_doc] = Inr [ana_view] \<and>
   findUserById mem_deps [ana_doc] ''id'' = Inr ana_view \<and>
   searchEmail mem_deps [ana_doc] ''Ana@x.io'' = Inr [[(''email'', JStr ''Ana@x.io'')]] \<and>
   property [(''email'', JStr ''Ana@x.io'')] ''password'' = None \<and>
   fst (register mem_deps zeros \<lparr>store = [], console = []\<rparr> bob) =
     Inr \<lparr>user = [(''_id'', JStr ''id''), (''name'', JStr ''Bob''), (''email'', JStr ''bob@x.io'')],
          token = ''jwt.id''\<rparr>"
proof -
  have c: "create mem_deps [] ana = (Inr ana_view, [ana_doc])"
    by (simp add: run)
  have l: "login mem_deps [ana_doc] \<lparr>email = ''Ana@x.io'', password = ''secret1''\<rparr> =
             Inr \<lparr>user = ana_view, token = ''jwt.id''\<rparr>"
    by (simp add: run)
  have a: "findAll mem_deps [ana_doc] = Inr [ana_view]"
    by (simp add: run)
  have f: "findUserById mem_deps [ana_doc] ''id'' = Inr ana_view"
    by (simp add: run)
  have s: "searchEmail mem_deps [ana_doc] ''Ana@x.io'' = Inr [[(''email'', JStr ''Ana@x.io'')]]"
    by (simp add: run)
  have r: "fst (register mem_deps zeros \<lparr>store = [], console = []\<rparr> bob) =
     Inr \<lparr>user = [(''_id'', JStr ''id''), (''name'', JStr ''Bob''), (''email'', JStr ''bob@x.io'')],
          token = ''jwt.id''\<rparr>"
    by code_simp
  from views_never_carry_password
         [of mem_deps "[]" ana "\<lparr>email = ''Ana@x.io'', password = ''secret1''\<rparr>"
             "''id''" "''Ana@x.io''" zeros "\<lparr>store = [], console = []\<rparr>" bob]
       views_never_carry_password
         [of mem_deps "[ana_doc]" ana "\<lparr>email = ''Ana@x.io'', password = ''secret1''\<rparr>"
             "''id''" "''Ana@x.io''" zeros "\<lparr>store = [], console = []\<rparr>" bob]
       c l a f s r
  show ?thesis by simp
qed

subsection \<open>The hash that create stores\<close>

text \<open>
  Claim C2. \<open>create\<close> hands the store an object whose \<open>password\<close> is
  \<open>hashSync(secret, 10)\<close> for the secret it was given (the properties spread after
  it cannot replace it, the password having been taken out of them), and \<open>login\<close>
  checks a secret with \<open>compareSync\<close> against the \<open>password\<close> of the document it
  finds. So, \<open>compareSync\<close> accepting the secret against its own \<open>hashSync\<close> (what
  bcryptjs promises; its code is not part of the repository), a \<open>create\<close> that the
  store accepts has stored a hash against which that same secret verifies, and a
  \<open>login\<close> with that secret that finds a document with this hash gets past the
  password check. The secret may have any length, six characters or more included.
\<close>

theorem create_stores_verifying_hash:
  assumes "property dto ''password'' = Some (JStr secret)"
    and "compareSync d secret (hashSync d secret 10)"
    and "save d db (newUser d secret dto) = (Inr json, db')"
  shows "create d db dto = (Inr (rest ''password'' json), db') \<and>
         (\<exists>h. property (newUser d secret dto) ''password'' = Some (JStr h) \<and>
              compareSync d secret h) \<and>
         (\<forall>db2 u e.
            findOne d db2 [(''email'', JStr e)] = Inr (Some u) \<and>
            property u ''password'' = property (newUser d secret dto) ''password'' \<longrightarrow>
            login d db2 \<lparr>email = e, password = secret\<rparr> =
              (case getJwtToken d (JwtPayload (property u ''_id'')) of
                 Inl error \<Rightarrow> Inl error
               | Inr t \<Rightarrow> Inr \<lparr>user = rest ''password'' u, token = t\<rparr>))"
proof (intro conjI allI impI)
  show "create d db dto = (Inr (rest ''password'' json), db')"
    using assms(1,3) by (rule create_saved)
next
  show "\<exists>h. property (newUser d secret dto) ''password'' = Some (JStr h) \<and>
            compareSync d secret h"
    using assms(2) by (simp add: newUser_password)
next
  fix db2 u e
  assume "findOne d db2 [(''email'', JStr e)] = Inr (Some u) \<and>
          property u ''password'' = property (newUser d secret dto) ''password''"
  then show "login d db2 \<lparr>email = e, password = secret\<rparr> =
              (case getJwtToken d (JwtPayload (property u ''_id'')) of
                 Inl error \<Rightarrow> Inl error
               | Inr t \<Rightarrow> Inr \<lparr>user = rest ''password'' u, token = t\<rparr>)"
    using assms(2) by (simp add: login_def newUser_password)
qed

theorem create_stores_verifying_hash_witness:
  "6 \<le> length ''secret1'' \<and>
   create mem_deps [] ana = (Inr (rest ''password'' ana_doc), [ana_doc]) \<and>
   property (newUser mem_deps ''secret1'' ana) ''password'' = Some (JStr ''#1terces'') \<and>
   compareSync mem_deps ''secret1'' ''#1terces'' \<and>
   login mem_deps [ana_doc] \<lparr>email = ''Ana@x.io'', password = ''secret1''\<rparr> =
     Inr \<lparr>user = ana_view, token = ''jwt.id''\<rparr>"
proof -
  have p: "property ana ''password'' = Some (JStr ''secret1'')"
    by (simp add: run)
  have v: "compareSync mem_deps ''secret1'' (hashSync mem_deps ''secret1'' 10)"
    by (simp add: run)
  have s: "save mem_deps [] (newUser mem_deps ''secret1'' ana) = (Inr ana_doc, [ana_doc])"
    by (simp add: run)
  have f: "findOne mem_deps [ana_doc] [(''email'', JStr ''Ana@x.io'')] = Inr (Some ana_doc)"
    by (simp add: run)
  have h: "property (newUser mem_deps ''secret1'' ana) ''password'' = Some (JStr ''#1terces'')"
    by (simp add: run)
  have q: "property ana_doc ''password'' = Some (JStr ''#1terces'')"
    by (simp add: run)
  have t: "getJwtToken mem_deps (JwtPayload (property ana_doc ''_id'')) = Inr ''jwt.id''"
    by (simp add: run)
  have w: "rest ''password'' ana_doc = ana_view"
    by (simp add: run)
  from create_stores_verifying_hash [OF p v s] f h q t w
  show ?thesis by (simp add: mem_deps_def mem_compareSync_def)
qed

subsection \<open>The errors of create\<close>

text \<open>
  Claim C3. When \<open>save\<close> throws, \<open>create\<close> throws a \<open>BadRequestException\<close> with the
  message \<open>"<email> already exist!"\<close> if the error has the code 11000, which is how
  the store says that the key exists already, and the \<open>InternalServerErrorException\<close>
  \<open>'Something went wrong with the server!'\<close> for every other error. More, every
  error that leaves \<open>create\<close> is one of these two: the store's own error never does.
\<close>

theorem create_error_mapping:
  "(\<forall>pw e error db'.
      property dto ''password'' = Some (JStr pw) \<and> property dto ''email'' = Some (JStr e) \<and>
      save d db (newUser d pw dto) = (Inl error, db') \<longrightarrow>
      fst (create d db dto) =
        Inl (if code error = Some 11000 then BadRequestException (e @ '' already exist!'')
             else InternalServerErrorException ''Something went wrong with the server!'')) \<and>
   (\<forall>x. fst (create d db dto) = Inl x \<longrightarrow>
      x = BadRequestException (template (property dto ''email'') @ '' already exist!'') \<or>
      x = InternalServerErrorException ''Something went wrong with the server!'')"
  by (auto simp: create_def create_catch_def
           split: option.splits jsval.splits prod.splits sum.splits)

theorem create_error_mapping_witness:
  "save mem_deps [ana_doc] (newUser mem_deps ''secret1'' ana) = (Inl (Error (Some 11000)), [ana_doc]) \<and>
   fst (create mem_deps [ana_doc] ana) = Inl (BadRequestException ''Ana@x.io already exist!'') \<and>
   save down_deps [] (newUser down_deps ''secret1'' ana) = (Inl (Error None), []) \<and>
   fst (create down_deps [] ana) =
     Inl (InternalServerErrorException ''Something went wrong with the server!'')"
proof -
  have p: "property ana ''password'' = Some (JStr ''secret1'')"
    by (simp add: run)
  have m: "property ana ''email'' = Some (JStr ''Ana@x.io'')"
    by (simp add: run)
  have s1: "save mem_deps [ana_doc] (newUser mem_deps ''secret1'' ana) =
              (Inl (Error (Some 11000)), [ana_doc])"
    by (simp add: run)
  have s2: "save down_deps [] (newUser down_deps ''secret1'' ana) = (Inl (Error None), [])"
    by (simp add: run)
  from create_error_mapping [of ana mem_deps "[ana_doc]"] p m s1
  have a: "fst (create mem_deps [ana_doc] ana) =
             Inl (BadRequestException ''Ana@x.io already exist!'')"
    by fastforce
  from create_error_mapping [of ana down_deps "[]"] p m s2
  have b: "fst (create down_deps [] ana) =
             Inl (InternalServerErrorException ''Something went wrong with the server!'')"
    by fastforce
  from a b s1 s2 show ?thesis by simp
qed

subsection \<open>Short secrets\<close>

text \<open>
  Against claim C4: \<open>create\<close> called with the secret \<open>abc\<close>, and with the empty
  secret, on an empty collection returns the account and leaves it in the collection.
\<close>

theorem create_short_secret_counterexample:
  "create mem_deps []
     [(''name'', JStr ''Ana''), (''email'', JStr ''Ana@x.io''), (''password'', JStr ''abc'')] =
   (Inr ana_view,
    [[(''_id'', JStr ''id''), (''password'', JStr ''#cba''),
      (''email'', JStr ''Ana@x.io''), (''name'', JStr ''Ana'')]]) \<and>
   create mem_deps []
     [(''name'', JStr ''Ana''), (''email'', JStr ''Ana@x.io''), (''password'', JStr [])] =
   (Inr ana_view,
    [[(''_id'', JStr ''id''), (''password'', JStr ''#''),
      (''email'', JStr ''Ana@x.io''), (''name'', JStr ''Ana'')]])"
  by (simp add: run)

text \<open>
  Claim C4, amended. \<open>create\<close> does not look at the length of the secret: a secret
  shorter than six characters is hashed and handed to the store as any other, and
  when the store accepts the document the account is created and returned. The
  minimum of six characters is the constraint \<open>MinLength(6)\<close> declared on the
  \<open>password\<close> of \<open>RegisterUserDto\<close>, which such a secret does not satisfy.
\<close>

theorem create_has_no_length_check:
  assumes "property dto ''password'' = Some (JStr secret)"
    and "length secret < 6"
    and "save d db (newUser d secret dto) = (Inr json, db')"
  shows "create d db dto = (Inr (rest ''password'' json), db') \<and> \<not> RegisterUserDto_valid dto"
  using assms by (simp add: create_saved RegisterUserDto_valid_def MinLength_def)

theorem create_has_no_length_check_witness:
  "length ''abc'' < 6 \<and>
   create mem_deps []
     [(''name'', JStr ''Ana''), (''email'', JStr ''Ana@x.io''), (''password'', JStr ''abc'')] =
   (Inr (rest ''password''
           [(''_id'', JStr ''id''), (''password'', JStr ''#cba''),
            (''email'', JStr ''Ana@x.io''), (''name'', JStr ''Ana'')]),
    [[(''_id'', JStr ''id''), (''password'', JStr ''#cba''),
      (''email'', JStr ''Ana@x.io''), (''name'', JStr ''Ana'')]]) \<and>
   \<not> RegisterUserDto_valid
       [(''name'', JStr ''Ana''), (''email'', JStr ''Ana@x.io''), (''password'', JStr ''abc'')]"
proof -
  let ?dto = "[(''name'', JStr ''Ana''), (''email'', JStr ''Ana@x.io''),
               (''password'', JStr ''abc'')]"
  let ?doc = "[(''_id'', JStr ''id''), (''password'', JStr ''#cba''),
               (''email'', JStr ''Ana@x.io''), (''name'', JStr ''Ana'')]"
  have p: "property ?dto ''password'' = Some (JStr ''abc'')"
    by (simp add: run)
  have n: "length ''abc'' < 6"
    by simp
  have s: "save mem_deps [] (newUser mem_deps ''abc'' ?dto) = (Inr ?doc, [?doc])"
    by (simp add: run)
  from create_has_no_length_check [OF p n s] n show ?thesis by simp
qed

subsection \<open>Looking up an id that no account has\<close>

text \<open>
  Claim C5. When \<open>findById\<close> answers \<open>null\<close>, \<open>findUserById\<close> calls \<open>toJSON\<close> on
  it: what is thrown is a \<open>TypeError\<close>, not the \<open>NotFoundException\<close>. So it is with
  every store that has no document of the id, and with the collection in memory that
  holds only the account of id \<open>id\<close>, asked for \<open>nobody\<close>.
\<close>

theorem findUserById_absent:
  "findUserById (d\<lparr>findById := (\<lambda>db i. Inr None)\<rparr>) db i =
     Inl (TypeError ''Cannot read properties of null'') \<and>
   findUserById mem_deps [ana_doc] ''nobody'' =
     Inl (TypeError ''Cannot read properties of null'')"
  by (simp add: run)

subsection \<open>The generated secret\<close>


















subsection \<open>Searching by email\<close>

text \<open>
  Claim C7. \<open>searchEmail\<close> gives, for the account that matches, the object
  \<open>{ email }\<close> and nothing else of the account: not its \<open>_id\<close>, not its \<open>name\<close>.
  The view of the same account that \<open>findAll\<close> returns has them.
\<close>

theorem searchEmail_only_email:
  "searchEmail mem_deps [ana_doc] ''Ana@x.io'' = Inr [[(''email'', JStr ''Ana@x.io'')]] \<and>
   findAll mem_deps [ana_doc] =
     Inr [[(''_id'', JStr ''id''), (''email'', JStr ''Ana@x.io''), (''name'', JStr ''Ana'')]]"
  by (simp add: run)

text \<open>
  Claim C9. \<open>searchEmail\<close> with the empty string returns the empty list, whatever
  the collection holds, and does not ask the store.
\<close>

theorem searchEmail_empty_query:
  "searchEmail d db [] = Inr []"
  by (simp add: searchEmail_def)

subsection \<open>The identity key\<close>

text \<open>
  Against claim C8: \<open>Ana@x.io\<close> and \<open>ana@x.io\<close> differ only in the case of a
  letter. The account created with the first is stored under \<open>Ana@x.io\<close>, not under
  its case-folded form; a \<open>login\<close> with the first and the right secret succeeds, and
  with the second it finds no account.
\<close>

theorem identity_key_case_counterexample:
  "case_fold ''Ana@x.io'' = ''ana@x.io'' \<and>
   create mem_deps [] ana = (Inr ana_view, [ana_doc]) \<and>
   property ana_doc ''email'' = Some (JStr ''Ana@x.io'') \<and>
   login mem_deps [ana_doc] \<lparr>email = ''Ana@x.io'', password = ''secret1''\<rparr> =
     Inr \<lparr>user = ana_view, token = ''jwt.id''\<rparr> \<and>
   login mem_deps [ana_doc] \<lparr>email = ''ana@x.io'', password = ''secret1''\<rparr> =
     Inl (UnauthorizedException ''Not valid credentials'')"
  by (simp add: run case_fold_def toLowerCase_char_def)

lemma login_after_create_other_key:
  assumes "e' \<noteq> e"
  shows "login mem_deps
           (snd (create mem_deps []
                   [(''name'', JStr n), (''email'', JStr e), (''password'', JStr pw)]))
           \<lparr>email = e', password = pw'\<rparr> =
         Inl (UnauthorizedException ''Not valid credentials'')"
  using assms by (simp add: run)

text \<open>
  Claim C8, amended. The service does not change the case of the identity key.
  \<open>create\<close> hands the store the \<open>email\<close> it was given, as it is; \<open>login\<close> asks the
  store for exactly the \<open>email\<close> it was given (its outcome is the same under any
  other \<open>findOne\<close> that answers this one query alike). With a store that matches by
  equality, as the collection in memory does, two keys that differ, be it only in the
  case of a letter, are two accounts: after the first is created, a \<open>login\<close> with the
  second finds none.
\<close>

theorem identity_key_used_as_given:
  "property (newUser d pw dto) ''email'' = property dto ''email'' \<and>
   (\<forall>f. f db [(''email'', JStr (email ld))] = findOne d db [(''email'', JStr (email ld))] \<longrightarrow>
        login (d\<lparr>findOne := f\<rparr>) db ld = login d db ld) \<and>
   (\<forall>n e s e' s'. e' \<noteq> e \<longrightarrow>
        login mem_deps
          (snd (create mem_deps []
                  [(''name'', JStr n), (''email'', JStr e), (''password'', JStr s)]))
          \<lparr>email = e', password = s'\<rparr> =
        Inl (UnauthorizedException ''Not valid credentials''))"
proof (intro conjI allI impI)
  show "property (newUser d pw dto) ''email'' = property dto ''email''"
    by (simp add: newUser_other)
next
  fix f
  assume "f db [(''email'', JStr (email ld))] = findOne d db [(''email'', JStr (email ld))]"
  then show "login (d\<lparr>findOne := f\<rparr>) db ld = login d db ld"
    by (auto simp: login_def getJwtToken_def split: sum.splits option.splits jsval.splits)
next
  fix n e s e' s'
  assume "e' \<noteq> (e :: string)"
  then show "login mem_deps
          (snd (create mem_deps []
                  [(''name'', JStr n), (''email'', JStr e), (''password'', JStr s)]))
          \<lparr>email = e', password = s'\<rparr> =
        Inl (UnauthorizedException ''Not valid credentials'')"
    by (rule login_after_create_other_key)
qed

theorem identity_key_used_as_given_witness:
  "''ana@x.io'' \<noteq> ''Ana@x.io'' \<and>
   property (newUser mem_deps ''secret1'' ana) ''email'' = Some (JStr ''Ana@x.io'') \<and>
   login (mem_deps\<lparr>findOne := (\<lambda>db q. Inr (Some ana_doc))\<rparr>) [ana_doc]
     \<lparr>email = ''Ana@x.io'', password = ''secret1''\<rparr> =
   login mem_deps [ana_doc] \<lparr>email = ''Ana@x.io'', password = ''secret1''\<rparr> \<and>
   login mem_deps (snd (create mem_deps [] ana)) \<lparr>email = ''ana@x.io'', password = ''secret1''\<rparr> =
     Inl (UnauthorizedException ''Not valid credentials'')"
proof -
  have ne: "''ana@x.io'' \<noteq> ''Ana@x.io''"
    by simp
  have m: "property ana ''email'' = Some (JStr ''Ana@x.io'')"
    by (simp add: run)
  have q: "(\<lambda>db q. Inr (Some ana_doc)) [ana_doc] [(''email'', JStr ''Ana@x.io'')] =
           findOne mem_deps [ana_doc] [(''email'', JStr ''Ana@x.io'')]"
    by (simp add: run)
  note t = identity_key_used_as_given
             [of mem_deps "''secret1''" ana "[ana_doc]"
                 "\<lparr>email = ''Ana@x.io'', password = ''secret1''\<rparr>"]
  have c1: "property (newUser mem_deps ''secret1'' ana) ''email'' = Some (JStr ''Ana@x.io'')"
    using t m by simp
  have c2: "login (mem_deps\<lparr>findOne := (\<lambda>db q. Inr (Some ana_doc))\<rparr>) [ana_doc]
              \<lparr>email = ''Ana@x.io'', password = ''secret1''\<rparr> =
            login mem_deps [ana_doc] \<lparr>email = ''Ana@x.io'', password = ''secret1''\<rparr>"
    using t q by simp
  have c3: "login mem_deps
              (snd (create mem_deps []
                      [(''name'', JStr ''Ana''), (''email'', JStr ''Ana@x.io''),
                       (''password'', JStr ''secret1'')]))
              \<lparr>email = ''ana@x.io'', password = ''secret1''\<rparr> =
            Inl (UnauthorizedException ''Not valid credentials'')"
    using t ne by simp
  from ne c1 c2 c3 show ?thesis
    unfolding ana_def by simp
qed

subsection \<open>The two failures of login\<close>

text \<open>
  Claim C10. A \<open>login\<close> whose email no account has (\<open>findOne\<close> answers \<open>null\<close>)
  and a \<open>login\<close> whose secret \<open>compareSync\<close> rejects against the hash of the
  account found throw the same value: the \<open>UnauthorizedException\<close> with the message
  \<open>'Not valid credentials'\<close>.
\<close>

theorem login_failures_indistinguishable:
  assumes "findOne d db [(''email'', JStr (email ld1))] = Inr None"
    and "findOne d db' [(''email'', JStr (email ld2))] = Inr (Some u)"
    and "property u ''password'' = Some (JStr h)"
    and "\<not> compareSync d (password ld2) h"
  shows "login d db ld1 = Inl (UnauthorizedException ''Not valid credentials'') \<and>
         login d db' ld2 = Inl (UnauthorizedException ''Not valid credentials'') \<and>
         login d db ld1 = login d db' ld2"
  using assms by (simp add: login_def)

theorem login_failures_indistinguishable_witness:
  "findOne mem_deps [ana_doc] [(''email'', JStr ''bob@x.io'')] = Inr None \<and>
   findOne mem_deps [ana_doc] [(''email'', JStr ''Ana@x.io'')] = Inr (Some ana_doc) \<and>
   \<not> compareSync mem_deps ''guess99'' ''#1terces'' \<and>
   login mem_deps [ana_doc] \<lparr>email = ''bob@x.io'', password = ''secret1''\<rparr> =
     Inl (UnauthorizedException ''Not valid credentials'') \<and>
   login mem_deps [ana_doc] \<lparr>email = ''Ana@x.io'', password = ''guess99''\<rparr> =
     Inl (UnauthorizedException ''Not valid credentials'')"
proof -
  let ?ld1 = "\<lparr>email = ''bob@x.io'', password = ''secret1''\<rparr>"
  let ?ld2 = "\<lparr>email = ''Ana@x.io'', password = ''guess99''\<rparr>"
  have a: "findOne mem_deps [ana_doc] [(''email'', JStr (email ?ld1))] = Inr None"
    by (simp add: run)
  have b: "findOne mem_deps [ana_doc] [(''email'', JStr (email ?ld2))] = Inr (Some ana_doc)"
    by (simp add: run)
  have c: "property ana_doc ''password'' = Some (JStr ''#1terces'')"
    by (simp add: run)
  have e: "\<not> compareSync mem_deps (password ?ld2) ''#1terces''"
    by (simp add: run)
  from login_failures_indistinguishable [OF a b c e] a b e
  show ?thesis by simp
qed

end
